theory Spec2Isabelle
  imports Complex_Main "HOL-Library.Word"
begin

section \<open>Job records and the string library\<close>

text \<open>
  The record \<open>models.Job\<close> (internal/models/job.go). Strings are byte strings, the optional
  \<open>PostedDate\<close> pointer is an option and timestamps are integers (nanoseconds).
\<close>

record Job =
  ID :: int
  Title :: string
  Company :: string
  Location :: string
  URL :: string
  Description :: string
  Salary :: string
  PostedDate :: "int option"
  Source :: string
  JobCategory :: string
  JobType :: string
  ScrapedAt :: int

text \<open>
  The functions of Go's standard library that the code calls and whose result depends on
  Unicode tables or on a digest algorithm are parameters of the model: \<open>strings.ToLower\<close>,
  \<open>strings.ToUpper\<close>, \<open>strings.TrimSpace\<close>, \<open>strings.Fields\<close> and \<open>md5.Sum\<close> (the 16 digest
  bytes). Every theorem below holds for whatever these functions compute.
\<close>

record stdlib =
  ToLower :: "string \<Rightarrow> string"
  ToUpper :: "string \<Rightarrow> string"
  TrimSpace :: "string \<Rightarrow> string"
  Fields :: "string \<Rightarrow> string list"
  md5_Sum :: "string \<Rightarrow> string"

text \<open>
  An instance for evaluating the model on ASCII inputs: on ASCII strings \<open>ascii_ToLower\<close>,
  \<open>ascii_ToUpper\<close>, \<open>ascii_TrimSpace\<close> and \<open>ascii_Fields\<close> compute what the Go functions
  compute. The digest of the instance is a stand-in (the first 16 bytes of the key, padded with
  zero bytes), not MD5.
\<close>

definition ascii_lower_char :: "char \<Rightarrow> char" where
  "ascii_lower_char c =
     (case map_of (zip ''ABCDEFGHIJKLMNOPQRSTUVWXYZ'' ''abcdefghijklmnopqrstuvwxyz'') c of
        Some l \<Rightarrow> l | None \<Rightarrow> c)"

definition ascii_upper_char :: "char \<Rightarrow> char" where
  "ascii_upper_char c =
     (case map_of (zip ''abcdefghijklmnopqrstuvwxyz'' ''ABCDEFGHIJKLMNOPQRSTUVWXYZ'') c of
        Some u \<Rightarrow> u | None \<Rightarrow> c)"

definition ascii_space :: "char \<Rightarrow> bool" where
  "ascii_space c = (c \<in> set [CHR 0x09, CHR 0x0A, CHR 0x0B, CHR 0x0C, CHR 0x0D, CHR 0x20])"

definition ascii_ToLower :: "string \<Rightarrow> string" where
  "ascii_ToLower s = map ascii_lower_char s"

definition ascii_ToUpper :: "string \<Rightarrow> string" where
  "ascii_ToUpper s = map ascii_upper_char s"

definition ascii_TrimSpace :: "string \<Rightarrow> string" where
  "ascii_TrimSpace s = rev (dropWhile ascii_space (rev (dropWhile ascii_space s)))"

fun ascii_Fields_loop :: "string \<Rightarrow> string \<Rightarrow> string list" where
  "ascii_Fields_loop [] w = (if w = [] then [] else [w])"
| "ascii_Fields_loop (c # cs) w =
     (if ascii_space c then (if w = [] then ascii_Fields_loop cs [] else w # ascii_Fields_loop cs [])
      else ascii_Fields_loop cs (w @ [c]))"

definition ascii_Fields :: "string \<Rightarrow> string list" where
  "ascii_Fields s = ascii_Fields_loop s []"

definition standin_digest :: "string \<Rightarrow> string" where
  "standin_digest s = take 16 (s @ replicate 16 (CHR 0x00))"

definition ascii_lib :: stdlib where
  "ascii_lib = \<lparr>ToLower = ascii_ToLower, ToUpper = ascii_ToUpper, TrimSpace = ascii_TrimSpace,
                Fields = ascii_Fields, md5_Sum = standin_digest\<rparr>"

section \<open>Deduplicator\<close>

text \<open>
  \<open>Deduplicator.seenJobs\<close> is a Go \<open>map[string]bool\<close>: reading a key that is absent gives
  \<open>false\<close>. The mutex of the struct guards every method and has no state of its own.
\<close>

record Deduplicator =
  seenJobs :: "string \<rightharpoonup> bool"

definition map_bool_index :: "(string \<rightharpoonup> bool) \<Rightarrow> string \<Rightarrow> bool" where
  "map_bool_index m k = (case m k of None \<Rightarrow> False | Some b \<Rightarrow> b)"


text \<open>\<open>fmt.Sprintf("%x", hash)\<close> on a byte array: two lower-case hexadecimal digits per byte.\<close>

definition hex_digit :: "nat \<Rightarrow> char" where
  "hex_digit n = ''0123456789abcdef'' ! n"

definition Sprintf_x :: "string \<Rightarrow> string" where
  "Sprintf_x bs = concat (map (\<lambda>c. [hex_digit ((of_char c :: nat) div 16), hex_digit ((of_char c :: nat) mod 16)]) bs)"

text \<open>The composite key \<open>fmt.Sprintf("%s|%s|%s", title, company, location)\<close> of generateJobHash.\<close>

definition normalized_key :: "stdlib \<Rightarrow> Job \<Rightarrow> string" where
  "normalized_key L job =
     (let title = ToLower L (TrimSpace L (Title job));
          company = ToLower L (TrimSpace L (Company job));
          location = ToLower L (TrimSpace L (Location job))
      in title @ ''|'' @ company @ ''|'' @ location)"

definition generateJobHash :: "stdlib \<Rightarrow> Job \<Rightarrow> string" where
  "generateJobHash L job = Sprintf_x (md5_Sum L (normalized_key L job))"

text \<open>
  The loop of RemoveDuplicates; the pair carries the deduplicator and \<open>uniqueJobs\<close>.
\<close>

fun RemoveDuplicates_loop :: "stdlib \<Rightarrow> Job list \<Rightarrow> Deduplicator \<times> Job list \<Rightarrow> Deduplicator \<times> Job list" where
  "RemoveDuplicates_loop L [] (d, uniqueJobs) = (d, uniqueJobs)"
| "RemoveDuplicates_loop L (job # jobs) (d, uniqueJobs) =
     (let hash = generateJobHash L job
      in if \<not> map_bool_index (seenJobs d) hash
         then RemoveDuplicates_loop L jobs (d\<lparr>seenJobs := (seenJobs d)(hash \<mapsto> True)\<rparr>, uniqueJobs @ [job])
         else RemoveDuplicates_loop L jobs (d, uniqueJobs))"

definition RemoveDuplicates :: "stdlib \<Rightarrow> Deduplicator \<Rightarrow> Job list \<Rightarrow> Deduplicator \<times> Job list" where
  "RemoveDuplicates L d jobs = RemoveDuplicates_loop L jobs (d, [])"


definition Reset :: "Deduplicator \<Rightarrow> Deduplicator" where
  "Reset d = d\<lparr>seenJobs := Map.empty\<rparr>"




text \<open>Three records: \<open>example_job_A2\<close> differs from \<open>example_job_A\<close> in case, surrounding blanks,
  URL, description, salary and source, and has the same normalized triple.\<close>

definition example_job_A :: Job where
  "example_job_A = \<lparr>ID = 0, Title = ''Go Developer'', Company = ''ACME'', Location = ''Remote'',
     URL = ''https://remoteok.com/remote-jobs/1'', Description = ''Build services'', Salary = [],
     PostedDate = None, Source = ''RemoteOK'', JobCategory = ''Backend Development'',
     JobType = ''full-time'', ScrapedAt = 0\<rparr>"

definition example_job_A2 :: Job where
  "example_job_A2 = \<lparr>ID = 0, Title = ''  go developer '', Company = ''Acme'', Location = ''REMOTE'',
     URL = ''https://remotive.com/jobs/77'', Description = ''Other text'', Salary = ''100k'',
     PostedDate = None, Source = ''Remotive'', JobCategory = ''Software Development'',
     JobType = ''contract'', ScrapedAt = 0\<rparr>"

definition example_job_B :: Job where
  "example_job_B = \<lparr>ID = 0, Title = ''Data Analyst'', Company = ''Initech'', Location = ''Berlin'',
     URL = ''https://remotive.com/jobs/78'', Description = '' '', Salary = '' '',
     PostedDate = None, Source = ''Remotive'', JobCategory = ''Data'',
     JobType = ''full-time'', ScrapedAt = 0\<rparr>"

subsection \<open>Properties of RemoveDuplicates\<close>



















lemmas ascii_lib_eval = ascii_lib_def ascii_ToLower_def ascii_ToUpper_def ascii_TrimSpace_def
  ascii_Fields_def ascii_lower_char_def ascii_upper_char_def ascii_space_def standin_digest_def


lemma example_hash_A: "generateJobHash ascii_lib example_job_A = ''676f20646576656c6f7065727c61636d''"
  by (simp add: generateJobHash_def normalized_key_def example_job_A_def ascii_lib_eval Sprintf_x_def hex_digit_def)

lemma example_hash_A2: "generateJobHash ascii_lib example_job_A2 = ''676f20646576656c6f7065727c61636d''"
  by (simp add: generateJobHash_def normalized_key_def example_job_A2_def ascii_lib_eval Sprintf_x_def hex_digit_def)

lemma example_hash_B: "generateJobHash ascii_lib example_job_B = ''6461746120616e616c7973747c696e69''"
  by (simp add: generateJobHash_def normalized_key_def example_job_B_def ascii_lib_eval Sprintf_x_def hex_digit_def)



section \<open>String similarity\<close>

text \<open>
  stringSimilarity builds two Go maps used as sets (\<open>set1\<close>, \<open>set2\<close>) from the words of the two
  strings. A map used as a set is modelled by the list of its keys without repetition; Go does
  not fix the order in which \<open>range set2\<close> visits the keys. \<open>Jaccard_loop\<close> is the loop over
  \<open>set2\<close>: its pair is (\<open>intersection\<close>, \<open>union\<close>).
\<close>

fun Jaccard_loop :: "string list \<Rightarrow> string list \<Rightarrow> nat \<times> nat \<Rightarrow> nat \<times> nat" where
  "Jaccard_loop [] set1 (intersection, union') = (intersection, union')"
| "Jaccard_loop (word # set2) set1 (intersection, union') =
     (if word \<in> set set1 then Jaccard_loop set2 set1 (intersection + 1, union')
      else Jaccard_loop set2 set1 (intersection, union' + 1))"

text \<open>
  The counts \<open>intersection\<close> and \<open>union\<close> that stringSimilarity divides, for two strings that
  pass its early returns.
\<close>

definition similarity_counts :: "stdlib \<Rightarrow> string \<Rightarrow> string \<Rightarrow> nat \<times> nat" where
  "similarity_counts L s1 s2 =
     (let words1 = Fields L (ToLower L s1);
          words2 = Fields L (ToLower L s2);
          set1 = remdups words1;
          set2 = remdups words2
      in Jaccard_loop set2 set1 (0, length set1))"

text \<open>
  The result \<open>float64(intersection) / float64(union)\<close> is the quotient of the two counts; the
  model returns it as a real number.
\<close>

definition stringSimilarity :: "stdlib \<Rightarrow> string \<Rightarrow> string \<Rightarrow> real" where
  "stringSimilarity L s1 s2 =
     (if s1 = s2 then 1
      else if s1 = [] \<or> s2 = [] then 0
      else if length (Fields L (ToLower L s1)) = 0 \<or> length (Fields L (ToLower L s2)) = 0 then 0
      else (case similarity_counts L s1 s2 of (intersection, union') \<Rightarrow>
              if union' = 0 then 0 else real intersection / real union'))"

subsection \<open>Properties of stringSimilarity\<close>

lemma Jaccard_loop_card:
  "distinct set2 \<Longrightarrow>
   Jaccard_loop set2 set1 (i, u) = (i + card (set set2 \<inter> set set1), u + card (set set2 - set set1))"
proof (induction set2 arbitrary: i u)
  case Nil
  show ?case by simp
next
  case (Cons w ws)
  then have d: "distinct ws" and n: "w \<notin> set ws"
    by simp_all
  show ?case
  proof (cases "w \<in> set set1")
    case True
    then have "set (w # ws) \<inter> set set1 = insert w (set ws \<inter> set set1)"
      and "set (w # ws) - set set1 = set ws - set set1"
      by auto
    with True n show ?thesis
      by (simp add: Cons.IH [OF d])
  next
    case False
    then have "set (w # ws) \<inter> set set1 = set ws \<inter> set set1"
      and "set (w # ws) - set set1 = insert w (set ws - set set1)"
      by auto
    with False n show ?thesis
      by (simp add: Cons.IH [OF d])
  qed
qed

lemma similarity_counts_card:
  "similarity_counts L s1 s2 =
     (card (set (Fields L (ToLower L s2)) \<inter> set (Fields L (ToLower L s1))),
      card (set (Fields L (ToLower L s1)) \<union> set (Fields L (ToLower L s2))))"
proof -
  let ?A = "set (Fields L (ToLower L s1))" and ?B = "set (Fields L (ToLower L s2))"
  have "card ?A + card (?B - ?A) = card (?A \<union> ?B)"
    by (metis List.finite_set Un_Diff_cancel card_Un_disjoint Diff_disjoint finite_Diff)
  then show ?thesis
    by (simp add: similarity_counts_def Let_def Jaccard_loop_card length_remdups_card_conv)
qed

lemma similarity_counts_sym: "similarity_counts L a b = similarity_counts L b a"
  by (simp add: similarity_counts_card Int_commute Un_commute)

text \<open>
  Claim C7. stringSimilarity is symmetric, and so is the pair of counts it divides (the
  operands of the floating-point division are the same integers for either order of the
  arguments), although \<open>union\<close> starts from the size of the first string's word set.
\<close>

theorem stringSimilarity_symmetric:
  "stringSimilarity L a b = stringSimilarity L b a \<and> similarity_counts L a b = similarity_counts L b a"
proof
  show "similarity_counts L a b = similarity_counts L b a"
    by (rule similarity_counts_sym)
  show "stringSimilarity L a b = stringSimilarity L b a"
    unfolding stringSimilarity_def similarity_counts_sym [of L b a] by auto
qed

theorem stringSimilarity_symmetric_witness:
  "stringSimilarity ascii_lib ''Go Developer'' ''senior go go developer'' = 2 / 3 \<and>
   stringSimilarity ascii_lib ''senior go go developer'' ''Go Developer'' = 2 / 3"
proof -
  have "stringSimilarity ascii_lib ''Go Developer'' ''senior go go developer'' = 2 / 3"
    by (simp add: stringSimilarity_def similarity_counts_def ascii_lib_eval)
  with stringSimilarity_symmetric [of ascii_lib "''Go Developer''" "''senior go go developer''"]
  show ?thesis by simp
qed

text \<open>
  Claim C6, as stated, fails for two empty strings: they are identical, the identity test comes
  first, and the result is 1, not 0.
\<close>

theorem stringSimilarity_both_empty_counterexample:
  "stringSimilarity ascii_lib [] [] = 1 \<and> stringSimilarity ascii_lib [] [] \<noteq> 0"
  by (simp add: stringSimilarity_def)

text \<open>
  Claim C6, amended. stringSimilarity is 1 whenever the two strings are identical, two empty
  strings included, and 0 whenever exactly one of the two strings is empty.
\<close>

theorem stringSimilarity_identical_or_one_empty:
  "(a = b \<longrightarrow> stringSimilarity L a b = 1) \<and>
   (a \<noteq> b \<and> (a = [] \<or> b = []) \<longrightarrow> stringSimilarity L a b = 0)"
  by (simp add: stringSimilarity_def)

theorem stringSimilarity_identical_or_one_empty_witness:
  "stringSimilarity ascii_lib ''Remote'' ''Remote'' = 1 \<and>
   stringSimilarity ascii_lib [] [] = 1 \<and>
   stringSimilarity ascii_lib [] ''Remote'' = 0 \<and>
   stringSimilarity ascii_lib ''Remote'' [] = 0"
  using stringSimilarity_identical_or_one_empty [of "''Remote''" "''Remote''" ascii_lib]
    stringSimilarity_identical_or_one_empty [of "[]" "[]" ascii_lib]
    stringSimilarity_identical_or_one_empty [of "[]" "''Remote''" ascii_lib]
    stringSimilarity_identical_or_one_empty [of "''Remote''" "[]" ascii_lib]
  by simp

section \<open>Retry configuration and backoff delay\<close>

subsection \<open>The float64 operations of calculateBackoffDelay\<close>

text \<open>
  A finite \<open>float64\<close> value is a real number \<open>m * 2 ^ e\<close> with \<open>\<bar>m\<bar> < 2 ^ 53\<close> and
  \<open>-1074 \<le> e \<le> 971\<close>. Conversions and products round to the nearest such value, ties to the
  even significand (IEEE 754 binary64, the arithmetic of Go's \<open>float64\<close>).
  \<open>float64_nearest x\<close> is that rounding for an unbounded exponent range above: with
  \<open>2 ^ E \<le> \<bar>x\<bar> < 2 ^ (E + 1)\<close> the spacing of the values around \<open>x\<close> is \<open>2 ^ (E - 52)\<close>, and
  \<open>2 ^ (-1074)\<close> in the subnormal range.
\<close>

definition float64_representable :: "real \<Rightarrow> bool" where
  "float64_representable x =
     (\<exists>m e :: int. x = real_of_int m * 2 powr real_of_int e \<and> \<bar>m\<bar> < 2 ^ 53 \<and> - 1074 \<le> e \<and> e \<le> 971)"

definition round_half_even :: "real \<Rightarrow> int" where
  "round_half_even q =
     (let f = \<lfloor>q\<rfloor>; r = q - real_of_int f
      in if r < 1 / 2 then f else if 1 / 2 < r then f + 1 else if even f then f else f + 1)"

definition float64_nearest :: "real \<Rightarrow> real" where
  "float64_nearest x =
     (if x = 0 then 0
      else (let u = max (\<lfloor>log 2 \<bar>x\<bar>\<rfloor> - 52) (- 1074)
            in real_of_int (round_half_even (x / 2 powr real_of_int u)) * 2 powr real_of_int u))"

text \<open>The conversion \<open>float64(n)\<close> of an integer.\<close>

definition float64_of_int :: "int \<Rightarrow> real" where
  "float64_of_int n = float64_nearest (real_of_int n)"

text \<open>
  The product of two \<open>float64\<close> values; \<open>None\<close> when the rounded product is beyond the largest
  finite value (the result is an infinity).
\<close>

definition float64_mul :: "real \<Rightarrow> real \<Rightarrow> real option" where
  "float64_mul x y =
     (let r = float64_nearest (x * y) in if \<bar>r\<bar> < 2 ^ 1024 then Some r else None)"

text \<open>
  The conversion \<open>time.Duration(x)\<close> of a \<open>float64\<close>: the fraction is discarded (truncation
  towards zero). When the truncated value does not fit into 64 bits Go leaves the result to
  the implementation; the model returns \<open>None\<close> there.
\<close>

definition truncate_toward_zero :: "real \<Rightarrow> int" where
  "truncate_toward_zero x = (if 0 \<le> x then \<lfloor>x\<rfloor> else \<lceil>x\<rceil>)"

definition Duration_of_float64 :: "real \<Rightarrow> int option" where
  "Duration_of_float64 x =
     (let t = truncate_toward_zero x
      in if - (2 ^ 63) \<le> t \<and> t < 2 ^ 63 then Some t else None)"

subsection \<open>RetryConfig and calculateBackoffDelay\<close>

text \<open>
  \<open>time.Duration\<close> is a signed 64-bit count of nanoseconds; \<open>BackoffFactor\<close> is a finite
  \<open>float64\<close> value.
\<close>

record RetryConfig =
  MaxRetries :: int
  InitialDelay :: int
  MaxDelay :: int
  BackoffFactor :: real

definition Second :: int where
  "Second = 1000000000"

text \<open>The retry configuration that NewPowerScraper installs.\<close>

definition NewPowerScraper_retryConfig :: RetryConfig where
  "NewPowerScraper_retryConfig =
     \<lparr>MaxRetries = 3, InitialDelay = 1 * Second, MaxDelay = 30 * Second, BackoffFactor = 2\<rparr>"

text \<open>
  \<open>time.Duration(float64(InitialDelay) * float64(attempt) * BackoffFactor)\<close>, capped at
  \<open>MaxDelay\<close>; the product is evaluated from the left.
\<close>

definition calculateBackoffDelay :: "RetryConfig \<Rightarrow> int \<Rightarrow> int option" where
  "calculateBackoffDelay cfg attempt =
     (case float64_mul (float64_of_int (InitialDelay cfg)) (float64_of_int attempt) of
        None \<Rightarrow> None
      | Some p \<Rightarrow>
          (case float64_mul p (BackoffFactor cfg) of
             None \<Rightarrow> None
           | Some q \<Rightarrow>
               (case Duration_of_float64 q of
                  None \<Rightarrow> None
                | Some delay \<Rightarrow> Some (if delay > MaxDelay cfg then MaxDelay cfg else delay))))"

subsection \<open>Properties of the float64 operations\<close>

lemma round_half_even_of_int: "round_half_even (real_of_int z) = z"
  by (simp add: round_half_even_def)

lemma significand_bound:
  assumes "\<bar>m\<bar> < (2::int) ^ 53"
  shows "real_of_int \<bar>m\<bar> < 2 powr 53"
proof -
  have "real_of_int \<bar>m\<bar> < real_of_int (2 ^ 53)"
    using assms by (simp only: of_int_less_iff)
  then show ?thesis
    by simp
qed

lemma float64_representable_bound:
  assumes "float64_representable x"
  shows "\<bar>x\<bar> < 2 ^ 1024"
proof -
  obtain m e :: int where x: "x = real_of_int m * 2 powr real_of_int e"
    and m: "\<bar>m\<bar> < 2 ^ 53" and e: "e \<le> 971"
    using assms by (auto simp: float64_representable_def)
  have a: "\<bar>x\<bar> = real_of_int \<bar>m\<bar> * 2 powr real_of_int e"
    by (simp add: x abs_mult)
  have 1: "real_of_int \<bar>m\<bar> < 2 ^ 53"
    using significand_bound [OF m] by simp
  have 2: "(2::real) powr real_of_int e \<le> 2 ^ 971"
    using powr_mono [of "real_of_int e" 971 2] e by simp
  have "real_of_int \<bar>m\<bar> * 2 powr real_of_int e < 2 ^ 53 * 2 ^ 971"
    using 1 2 by (intro mult_less_le_imp_less) simp_all
  then show ?thesis
    by (simp add: a)
qed

lemma float64_nearest_exact:
  assumes "float64_representable x"
  shows "float64_nearest x = x"
proof (cases "x = 0")
  case True
  then show ?thesis by (simp add: float64_nearest_def)
next
  case False
  obtain m e :: int where x: "x = real_of_int m * 2 powr real_of_int e"
    and m: "\<bar>m\<bar> < 2 ^ 53" and e: "- 1074 \<le> e"
    using assms by (auto simp: float64_representable_def)
  define E where "E = \<lfloor>log 2 \<bar>x\<bar>\<rfloor>"
  define u where "u = max (E - 52) (- 1074)"
  have pos: "0 < \<bar>x\<bar>"
    using False by simp
  have a: "\<bar>x\<bar> = real_of_int \<bar>m\<bar> * 2 powr real_of_int e"
    by (simp add: x abs_mult)
  have "real_of_int \<bar>m\<bar> < 2 powr 53"
    using m by (rule significand_bound)
  then have "\<bar>x\<bar> < 2 powr 53 * 2 powr real_of_int e"
    unfolding a by (intro mult_strict_right_mono) simp_all
  then have up: "\<bar>x\<bar> < 2 powr real_of_int (53 + e)"
    by (simp add: powr_add)
  have "2 powr real_of_int E \<le> \<bar>x\<bar>"
    using floor_log_eq_powr_iff [of "\<bar>x\<bar>" 2 E] pos by (simp add: E_def)
  with up have "(2::real) powr real_of_int E < 2 powr real_of_int (53 + e)"
    by linarith
  then have "E < 53 + e"
    by simp
  with e have ue: "u \<le> e"
    by (simp add: u_def)
  have "(2::real) powr real_of_int e / 2 powr real_of_int u = 2 powr real_of_int (e - u)"
    by (simp add: powr_diff)
  also have "\<dots> = 2 powr real (nat (e - u))"
    using ue by simp
  also have "\<dots> = 2 ^ nat (e - u)"
    by (simp add: powr_realpow)
  finally have "real_of_int m * (2 powr real_of_int e / 2 powr real_of_int u) = real_of_int m * 2 ^ nat (e - u)"
    by simp
  then have q: "x / 2 powr real_of_int u = real_of_int (m * 2 ^ nat (e - u))"
    by (simp add: x)
  have "real_of_int (m * 2 ^ nat (e - u)) * 2 powr real_of_int u = x"
  proof -
    have "(2::real) powr real_of_int u \<noteq> 0"
      by simp
    then show ?thesis
      using q by (simp add: field_simps)
  qed
  moreover have "round_half_even (x / 2 powr real_of_int u) = m * 2 ^ nat (e - u)"
    unfolding q by (rule round_half_even_of_int)
  moreover have "float64_nearest x =
      real_of_int (round_half_even (x / 2 powr real_of_int u)) * 2 powr real_of_int u"
    using False by (simp add: float64_nearest_def Let_def E_def u_def)
  ultimately show ?thesis
    by (simp only:)
qed

lemma float64_mul_exact:
  "float64_representable (x * y) \<Longrightarrow> float64_mul x y = Some (x * y)"
  using float64_representable_bound [of "x * y"]
  by (simp add: float64_mul_def float64_nearest_exact)

lemma float64_of_int_exact:
  "float64_representable (real_of_int n) \<Longrightarrow> float64_of_int n = real_of_int n"
  by (simp add: float64_of_int_def float64_nearest_exact)

lemma float64_representable_scaled:
  "\<bar>m\<bar> < 2 ^ 53 \<Longrightarrow> e \<le> 971 \<Longrightarrow> float64_representable (real_of_int (m * 2 ^ e))"
proof -
  assume m: "\<bar>m\<bar> < 2 ^ 53" and e: "e \<le> 971"
  have "real_of_int (m * 2 ^ e) = real_of_int m * 2 powr real_of_int (int e)"
    by (simp add: powr_realpow)
  moreover have "- 1074 \<le> int e" and "int e \<le> 971"
    using e by simp_all
  ultimately show ?thesis
    unfolding float64_representable_def using m by blast
qed

lemma float64_representable_int:
  "\<bar>m\<bar> < 2 ^ 53 \<Longrightarrow> float64_representable (real_of_int m)"
  using float64_representable_scaled [of m 0] by simp

lemma float64_nearest_eval:
  assumes "2 powr real_of_int E \<le> \<bar>x\<bar>" and "\<bar>x\<bar> < 2 powr real_of_int (E + 1)"
  shows "float64_nearest x =
     real_of_int (round_half_even (x / 2 powr real_of_int (max (E - 52) (- 1074)))) *
       2 powr real_of_int (max (E - 52) (- 1074))"
proof -
  have "0 < (2::real) powr real_of_int E"
    by simp
  with assms have pos: "0 < \<bar>x\<bar>"
    by linarith
  then have "\<lfloor>log 2 \<bar>x\<bar>\<rfloor> = E"
    using floor_log_eq_powr_iff [of "\<bar>x\<bar>" 2 E] assms by simp
  with pos show ?thesis
    by (simp add: float64_nearest_def Let_def)
qed

text \<open>
  Two values of the conversion: \<open>2 ^ 53 + 1\<close> is not a \<open>float64\<close> value and lies halfway between
  two of them; it rounds to \<open>2 ^ 53\<close>, whose significand is even.
\<close>

lemma float64_of_int_rounds: "float64_of_int 9007199254740993 = 9007199254740992"
proof -
  have "float64_nearest 9007199254740993 =
      real_of_int (round_half_even (9007199254740993 / 2 powr real_of_int (max (53 - 52) (- 1074)))) *
        2 powr real_of_int (max (53 - 52) (- 1074))"
    by (rule float64_nearest_eval) simp_all
  also have "\<dots> = 9007199254740992"
    by (simp add: round_half_even_def)
  finally show ?thesis
    by (simp add: float64_of_int_def)
qed

subsection \<open>Properties of calculateBackoffDelay\<close>

lemma calculateBackoffDelay_exact:
  assumes "float64_representable (real_of_int (InitialDelay cfg))"
    and "float64_representable (real_of_int k)"
    and "float64_representable (real_of_int (InitialDelay cfg) * real_of_int k)"
    and "float64_representable (real_of_int (InitialDelay cfg) * real_of_int k * BackoffFactor cfg)"
    and "- (2 ^ 63) \<le> truncate_toward_zero (real_of_int (InitialDelay cfg) * real_of_int k * BackoffFactor cfg)"
    and "truncate_toward_zero (real_of_int (InitialDelay cfg) * real_of_int k * BackoffFactor cfg) < 2 ^ 63"
  shows "calculateBackoffDelay cfg k =
     Some (min (truncate_toward_zero (real_of_int (InitialDelay cfg) * real_of_int k * BackoffFactor cfg))
            (MaxDelay cfg))"
proof -
  have 1: "float64_mul (float64_of_int (InitialDelay cfg)) (float64_of_int k) =
      Some (real_of_int (InitialDelay cfg) * real_of_int k)"
    using assms(1-3) by (simp add: float64_of_int_exact float64_mul_exact)
  have 2: "float64_mul (real_of_int (InitialDelay cfg) * real_of_int k) (BackoffFactor cfg) =
      Some (real_of_int (InitialDelay cfg) * real_of_int k * BackoffFactor cfg)"
    using assms(4) by (rule float64_mul_exact)
  have 3: "Duration_of_float64 (real_of_int (InitialDelay cfg) * real_of_int k * BackoffFactor cfg) =
      Some (truncate_toward_zero (real_of_int (InitialDelay cfg) * real_of_int k * BackoffFactor cfg))"
    using assms(5,6) by (simp add: Duration_of_float64_def)
  show ?thesis
    by (simp add: calculateBackoffDelay_def 1 2 3 min_def)
qed

lemma calculateBackoffDelay_default:
  assumes "1 \<le> j" and "j \<le> 4611686018"
  shows "calculateBackoffDelay NewPowerScraper_retryConfig j = Some (min (1 * Second * j * 2) (30 * Second))"
proof -
  let ?cfg = NewPowerScraper_retryConfig
  have I: "InitialDelay ?cfg = 1000000000" and F: "BackoffFactor ?cfg = 2" and M: "MaxDelay ?cfg = 30 * Second"
    by (simp_all add: NewPowerScraper_retryConfig_def Second_def)
  have a: "float64_representable (real_of_int (InitialDelay ?cfg))"
    unfolding I by (rule float64_representable_int) simp
  have b: "float64_representable (real_of_int j)"
    using assms by (intro float64_representable_int) simp
  have "float64_representable (real_of_int (1953125 * j * 2 ^ 9))"
    using assms by (intro float64_representable_scaled) simp_all
  then have c: "float64_representable (real_of_int (InitialDelay ?cfg) * real_of_int j)"
    unfolding I by (simp add: mult.commute)
  have "float64_representable (real_of_int (1953125 * j * 2 ^ 10))"
    using assms by (intro float64_representable_scaled) simp_all
  then have d: "float64_representable (real_of_int (InitialDelay ?cfg) * real_of_int j * BackoffFactor ?cfg)"
    unfolding I F by (simp add: mult.commute)
  have "real_of_int (InitialDelay ?cfg) * real_of_int j * BackoffFactor ?cfg = real_of_int (1 * Second * j * 2)"
    unfolding I F by (simp add: Second_def)
  then have t: "truncate_toward_zero (real_of_int (InitialDelay ?cfg) * real_of_int j * BackoffFactor ?cfg) =
      1 * Second * j * 2"
    using assms by (simp only: truncate_toward_zero_def floor_of_int ceiling_of_int if_cancel)
  have e: "- (2 ^ 63) \<le> 1 * Second * j * 2" and f: "1 * Second * j * 2 < 2 ^ 63"
    using assms by (simp_all add: Second_def)
  show ?thesis
    using calculateBackoffDelay_exact [of ?cfg j, OF a b c d] e f unfolding t M by simp
qed

text \<open>
  Two evaluations outside the whole-number case: a product with a fraction is truncated, and
  an \<open>InitialDelay\<close> that is not a \<open>float64\<close> value is rounded before it is multiplied.
\<close>

lemma calculateBackoffDelay_truncates:
  "calculateBackoffDelay \<lparr>MaxRetries = 3, InitialDelay = 1, MaxDelay = 30, BackoffFactor = 3 / 2\<rparr> 1 = Some 1"
proof -
  let ?cfg = "\<lparr>MaxRetries = 3, InitialDelay = 1, MaxDelay = 30, BackoffFactor = 3 / 2\<rparr>"
  have "float64_representable (real_of_int 1)"
    by (rule float64_representable_int) simp
  then have a: "float64_representable (real_of_int (InitialDelay ?cfg))"
    and b: "float64_representable (real_of_int 1)"
    and c: "float64_representable (real_of_int (InitialDelay ?cfg) * real_of_int 1)"
    by simp_all
  have "(3 / 2 :: real) = real_of_int 3 * 2 powr real_of_int (- 1)"
    by (simp add: powr_minus)
  then have "float64_representable (3 / 2)"
    unfolding float64_representable_def by (intro exI [of _ 3] exI [of _ "- 1"]) simp
  then have d: "float64_representable (real_of_int (InitialDelay ?cfg) * real_of_int 1 * BackoffFactor ?cfg)"
    by simp
  have t: "truncate_toward_zero (real_of_int (InitialDelay ?cfg) * real_of_int 1 * BackoffFactor ?cfg) = 1"
    by (simp add: truncate_toward_zero_def)
  show ?thesis
    using calculateBackoffDelay_exact [of ?cfg 1, OF a b c d] unfolding t by simp
qed

lemma calculateBackoffDelay_rounds:
  "calculateBackoffDelay
     \<lparr>MaxRetries = 3, InitialDelay = 9007199254740993, MaxDelay = 9007199254740993, BackoffFactor = 1\<rparr> 1
   = Some 9007199254740992"
proof -
  have r: "float64_representable 9007199254740992"
    using float64_representable_scaled [of 1 53] by simp
  have one: "float64_of_int 1 = 1"
    using float64_of_int_exact [of 1] float64_representable_int [of 1] by simp
  have m: "float64_mul 9007199254740992 1 = Some 9007199254740992"
    using float64_mul_exact [of 9007199254740992 1] r by simp
  have d: "Duration_of_float64 9007199254740992 = Some 9007199254740992"
    by (simp add: Duration_of_float64_def truncate_toward_zero_def)
  show ?thesis
    by (simp add: calculateBackoffDelay_def float64_of_int_rounds one m d)
qed

text \<open>
  Claim C1, as stated, fails in its last example: with the configuration of NewPowerScraper the
  delay of attempt 10 is \<open>1 s * 10 * 2 = 20 s\<close>, below the cap, and not 30 s.
\<close>

theorem calculateBackoffDelay_attempt_10_counterexample:
  "calculateBackoffDelay NewPowerScraper_retryConfig 10 = Some (20 * Second) \<and>
   calculateBackoffDelay NewPowerScraper_retryConfig 10 \<noteq> Some (30 * Second)"
  using calculateBackoffDelay_default [of 10] by (simp add: Second_def)

text \<open>
  Claim C1, amended. For every attempt \<open>k \<ge> 1\<close> for which the \<open>float64\<close> computation is exact
  (\<open>InitialDelay\<close>, \<open>k\<close>, their product and the product with \<open>BackoffFactor\<close> are \<open>float64\<close>
  values) and whose product, truncated towards zero to whole nanoseconds, fits a
  \<open>time.Duration\<close>, the delay is the minimum of that truncated product and \<open>MaxDelay\<close>. With
  the configuration of NewPowerScraper (1 s, factor 2, cap 30 s) the delay of attempt \<open>j\<close> is
  \<open>min (1 s * j * 2) (30 s)\<close> for every \<open>j\<close> from 1 up to the largest attempt number whose
  product fits 64 bits: 2 s for attempt 1, 4 s for attempt 2, 20 s for attempt 10, and 30 s
  (the cap) from attempt 15 on.
\<close>

theorem calculateBackoffDelay_formula:
  "(1 \<le> k \<and>
    float64_representable (real_of_int (InitialDelay cfg)) \<and>
    float64_representable (real_of_int k) \<and>
    float64_representable (real_of_int (InitialDelay cfg) * real_of_int k) \<and>
    float64_representable (real_of_int (InitialDelay cfg) * real_of_int k * BackoffFactor cfg) \<and>
    - (2 ^ 63) \<le> truncate_toward_zero (real_of_int (InitialDelay cfg) * real_of_int k * BackoffFactor cfg) \<and>
    truncate_toward_zero (real_of_int (InitialDelay cfg) * real_of_int k * BackoffFactor cfg) < 2 ^ 63 \<longrightarrow>
      calculateBackoffDelay cfg k =
        Some (min (truncate_toward_zero (real_of_int (InitialDelay cfg) * real_of_int k * BackoffFactor cfg))
               (MaxDelay cfg))) \<and>
   (1 \<le> j \<and> j \<le> 4611686018 \<longrightarrow>
      calculateBackoffDelay NewPowerScraper_retryConfig j = Some (min (1 * Second * j * 2) (30 * Second))) \<and>
   (15 \<le> j \<and> j \<le> 4611686018 \<longrightarrow>
      calculateBackoffDelay NewPowerScraper_retryConfig j = Some (30 * Second)) \<and>
   calculateBackoffDelay NewPowerScraper_retryConfig 1 = Some (2 * Second) \<and>
   calculateBackoffDelay NewPowerScraper_retryConfig 2 = Some (4 * Second) \<and>
   calculateBackoffDelay NewPowerScraper_retryConfig 10 = Some (20 * Second)"
proof (intro conjI impI)
  assume "1 \<le> k \<and>
    float64_representable (real_of_int (InitialDelay cfg)) \<and>
    float64_representable (real_of_int k) \<and>
    float64_representable (real_of_int (InitialDelay cfg) * real_of_int k) \<and>
    float64_representable (real_of_int (InitialDelay cfg) * real_of_int k * BackoffFactor cfg) \<and>
    - (2 ^ 63) \<le> truncate_toward_zero (real_of_int (InitialDelay cfg) * real_of_int k * BackoffFactor cfg) \<and>
    truncate_toward_zero (real_of_int (InitialDelay cfg) * real_of_int k * BackoffFactor cfg) < 2 ^ 63"
  then show "calculateBackoffDelay cfg k =
      Some (min (truncate_toward_zero (real_of_int (InitialDelay cfg) * real_of_int k * BackoffFactor cfg))
             (MaxDelay cfg))"
    using calculateBackoffDelay_exact [of cfg k] by blast
next
  assume "1 \<le> j \<and> j \<le> 4611686018"
  then show "calculateBackoffDelay NewPowerScraper_retryConfig j = Some (min (1 * Second * j * 2) (30 * Second))"
    using calculateBackoffDelay_default [of j] by simp
next
  assume "15 \<le> j \<and> j \<le> 4611686018"
  then show "calculateBackoffDelay NewPowerScraper_retryConfig j = Some (30 * Second)"
    using calculateBackoffDelay_default [of j] by (simp add: Second_def min_def)
next
  show "calculateBackoffDelay NewPowerScraper_retryConfig 1 = Some (2 * Second)"
    using calculateBackoffDelay_default [of 1] by (simp add: Second_def)
next
  show "calculateBackoffDelay NewPowerScraper_retryConfig 2 = Some (4 * Second)"
    using calculateBackoffDelay_default [of 2] by (simp add: Second_def)
next
  show "calculateBackoffDelay NewPowerScraper_retryConfig 10 = Some (20 * Second)"
    using calculateBackoffDelay_default [of 10] by (simp add: Second_def)
qed

theorem calculateBackoffDelay_formula_witness:
  "calculateBackoffDelay \<lparr>MaxRetries = 3, InitialDelay = 1, MaxDelay = 30, BackoffFactor = 3 / 2\<rparr> 1 = Some 1 \<and>
   calculateBackoffDelay NewPowerScraper_retryConfig 3 = Some 6000000000 \<and>
   calculateBackoffDelay NewPowerScraper_retryConfig 16 = Some 30000000000"
proof -
  let ?cfg = "\<lparr>MaxRetries = 3, InitialDelay = 1, MaxDelay = 30, BackoffFactor = 3 / 2\<rparr>"
  have "float64_representable (real_of_int 1)"
    by (rule float64_representable_int) simp
  then have a: "float64_representable (real_of_int (InitialDelay ?cfg))"
    and b: "float64_representable (real_of_int 1)"
    and c: "float64_representable (real_of_int (InitialDelay ?cfg) * real_of_int 1)"
    by simp_all
  have "(3 / 2 :: real) = real_of_int 3 * 2 powr real_of_int (- 1)"
    by (simp add: powr_minus)
  then have "float64_representable (3 / 2)"
    unfolding float64_representable_def by (intro exI [of _ 3] exI [of _ "- 1"]) simp
  then have d: "float64_representable (real_of_int (InitialDelay ?cfg) * real_of_int 1 * BackoffFactor ?cfg)"
    by simp
  have t: "truncate_toward_zero (real_of_int (InitialDelay ?cfg) * real_of_int 1 * BackoffFactor ?cfg) = 1"
    by (simp add: truncate_toward_zero_def)
  have 1: "calculateBackoffDelay ?cfg 1 = Some 1"
    using calculateBackoffDelay_formula [of 1 ?cfg 3] a b c d unfolding t by simp
  have 2: "calculateBackoffDelay NewPowerScraper_retryConfig 3 = Some 6000000000"
    using calculateBackoffDelay_formula [of 1 ?cfg 3] by (simp add: Second_def)
  have 3: "calculateBackoffDelay NewPowerScraper_retryConfig 16 = Some 30000000000"
    using calculateBackoffDelay_formula [of 1 ?cfg 16] by (simp add: Second_def)
  show ?thesis
    by (rule conjI [OF 1 conjI [OF 2 3]])
qed

section \<open>The orchestrator\<close>

subsection \<open>Errors, metrics and results\<close>

datatype error =
    ErrNoEnabledSources
  | ErrContext
  | ErrRateLimit error
  | ErrSaveJobs error
  | ErrFetch string
  | ErrStore string

text \<open>
  \<open>ErrNoEnabledSources\<close> is \<open>fmt.Errorf("no enabled sources found")\<close>, \<open>ErrContext\<close> is
  \<open>ctx.Err()\<close>, \<open>ErrRateLimit\<close> and \<open>ErrSaveJobs\<close> are the wrappers
  \<open>"rate limit error: %w"\<close> and \<open>"failed to save jobs: %w"\<close>; \<open>ErrFetch\<close> and \<open>ErrStore\<close> stand for
  the errors of a source adapter and of the store. The counters are \<open>int64\<close>.
\<close>

record SourceMetrics =
  JobsScraped :: "64 word"
  JobsSaved :: "64 word"
  Duplicates :: "64 word"
  Errors :: "64 word"
  ResponseTime :: int
  LastScraped :: int

record ScraperMetrics =
  TotalJobsScraped :: "64 word"
  TotalJobsSaved :: "64 word"
  TotalDuplicates :: "64 word"
  TotalErrors :: "64 word"
  ScrapingDuration :: int
  SourcePerformance :: "string \<rightharpoonup> SourceMetrics"

text \<open>Reading \<open>SourcePerformance[name]\<close>: the zero value when the key is absent.\<close>

definition SourceMetrics_zero :: SourceMetrics where
  "SourceMetrics_zero =
     \<lparr>JobsScraped = 0, JobsSaved = 0, Duplicates = 0, Errors = 0, ResponseTime = 0, LastScraped = 0\<rparr>"

definition SourcePerformance_index :: "(string \<rightharpoonup> SourceMetrics) \<Rightarrow> string \<Rightarrow> SourceMetrics" where
  "SourcePerformance_index m name = (case m name of None \<Rightarrow> SourceMetrics_zero | Some v \<Rightarrow> v)"

definition NewPowerScraper_metrics :: ScraperMetrics where
  "NewPowerScraper_metrics =
     \<lparr>TotalJobsScraped = 0, TotalJobsSaved = 0, TotalDuplicates = 0, TotalErrors = 0,
      ScrapingDuration = 0, SourcePerformance = Map.empty\<rparr>"

record ScraperResult =
  result_Source :: string
  result_Jobs :: "Job list"
  result_Error :: "error option"
  result_Duration :: int

subsection \<open>scrapeSource\<close>

text \<open>
  What the world outside does during one call of scrapeSource: the outcome of
  \<open>rateLimiter.Wait\<close>, whether \<open>ctx.Done()\<close> wins the \<open>select\<close> of the backoff wait before an
  attempt (given the attempt and its delay), what the call of FetchJobs in an attempt returns,
  and the clock readings \<open>time.Since(startTime)\<close> and \<open>time.Now()\<close>.
\<close>

record source_world =
  Wait_result :: "error option"
  ctx_Done_during_backoff :: "int \<Rightarrow> int option \<Rightarrow> bool"
  FetchJobs_result :: "int \<Rightarrow> Job list \<times> error option"
  elapsed :: int
  now :: int

text \<open>
  The retry loop of scrapeSource. \<open>Inl\<close> is the early return from the backoff wait; \<open>Inr\<close>
  carries \<open>jobs\<close> and \<open>lastError\<close> at the end of the loop.
\<close>

function scrapeSource_loop ::
  "RetryConfig \<Rightarrow> source_world \<Rightarrow> int \<Rightarrow> Job list \<times> error option \<Rightarrow> error + Job list \<times> error option" where
  "scrapeSource_loop cfg w attempt r =
     (if attempt \<le> MaxRetries cfg then
        (if attempt > 0 \<and> ctx_Done_during_backoff w attempt (calculateBackoffDelay cfg attempt)
         then Inl ErrContext
         else if snd (FetchJobs_result w attempt) = None then Inr (FetchJobs_result w attempt)
         else scrapeSource_loop cfg w (attempt + 1) (FetchJobs_result w attempt))
      else Inr r)"
  by pat_completeness auto
termination
  by (relation "measure (\<lambda>(cfg, w, attempt, r). nat (MaxRetries cfg + 1 - attempt))") auto

declare scrapeSource_loop.simps [simp del]

definition scrapeSource ::
  "RetryConfig \<Rightarrow> string \<Rightarrow> source_world \<Rightarrow> ScraperMetrics \<Rightarrow> ScraperResult \<times> ScraperMetrics" where
  "scrapeSource cfg sourceName w m =
     (case Wait_result w of
        Some err \<Rightarrow>
          (\<lparr>result_Source = sourceName, result_Jobs = [], result_Error = Some (ErrRateLimit err),
            result_Duration = elapsed w\<rparr>, m)
      | None \<Rightarrow>
          (case scrapeSource_loop cfg w 0 ([], None) of
             Inl err \<Rightarrow>
               (\<lparr>result_Source = sourceName, result_Jobs = [], result_Error = Some err,
                 result_Duration = elapsed w\<rparr>, m)
           | Inr (jobs, lastError) \<Rightarrow>
               (\<lparr>result_Source = sourceName, result_Jobs = jobs, result_Error = lastError,
                 result_Duration = elapsed w\<rparr>,
                if lastError \<noteq> None
                then (let sourceMetric = SourcePerformance_index (SourcePerformance m) sourceName
                      in m\<lparr>SourcePerformance := (SourcePerformance m)
                           (sourceName \<mapsto> sourceMetric\<lparr>Errors := Errors sourceMetric + 1\<rparr>)\<rparr>)
                else m)))"

subsection \<open>The store and saveJobs\<close>

text \<open>
  The store is an interface. Its state is the list of calls it has received; what a call
  returns is given by the world of the cycle as a function of the calls before it and of the
  argument. The world also says whether \<open>ctx.Done()\<close> is observed at the check that follows the
  batch starting at index \<open>i\<close>, and gives the clock reading of the deferred function.
\<close>

datatype call = SaveJobs_call "Job list" | SaveJob_call Job

fun call_jobs :: "call \<Rightarrow> Job list" where
  "call_jobs (SaveJobs_call batch) = batch"
| "call_jobs (SaveJob_call job) = [job]"

record cycle_world =
  SaveJobs_result :: "call list \<Rightarrow> Job list \<Rightarrow> error option"
  SaveJob_result :: "call list \<Rightarrow> Job \<Rightarrow> error option"
  ctx_Done_after_batch :: "nat \<Rightarrow> bool"
  cycle_elapsed :: int

text \<open>The fallback loop: every job of the batch is saved on its own; a failure is logged.\<close>

fun SaveJob_each :: "cycle_world \<Rightarrow> Job list \<Rightarrow> call list \<Rightarrow> call list" where
  "SaveJob_each W [] st = st"
| "SaveJob_each W (job # batch) st = SaveJob_each W batch (st @ [SaveJob_call job])"

definition batchSize :: nat where
  "batchSize = 50"

function saveJobs_loop :: "cycle_world \<Rightarrow> Job list \<Rightarrow> nat \<Rightarrow> call list \<Rightarrow> error option \<times> call list" where
  "saveJobs_loop W jobs i st =
     (if i < length jobs then
        (let end' = (if i + batchSize > length jobs then length jobs else i + batchSize);
             batch = take (end' - i) (drop i jobs);
             st1 = st @ [SaveJobs_call batch];
             st2 = (if SaveJobs_result W st batch \<noteq> None then SaveJob_each W batch st1 else st1)
         in if ctx_Done_after_batch W i then (Some ErrContext, st2)
            else saveJobs_loop W jobs (i + batchSize) st2)
      else (None, st))"
  by pat_completeness auto
termination
  by (relation "measure (\<lambda>(W, jobs, i, st). length jobs - i)") (auto simp: batchSize_def)

declare saveJobs_loop.simps [simp del]

definition saveJobs :: "cycle_world \<Rightarrow> Job list \<Rightarrow> call list \<Rightarrow> error option \<times> call list" where
  "saveJobs W jobs st = saveJobs_loop W jobs 0 st"

subsection \<open>ScrapeAllSources\<close>

record PowerScraper =
  deduplicator :: Deduplicator
  retryConfig :: RetryConfig
  metrics :: ScraperMetrics
  storage :: "call list"


text \<open>
  The workers and the collection loop. The argument list holds the enabled sources, each with
  the world of its scrapeSource call, in the order in which the results reach
  \<open>resultsChan\<close>. A worker changes the metrics only at the key of its own source and does so
  before it sends its result, and every update happens under the mutex, so running each worker
  right before its result is collected gives the same final state as any interleaving with
  that arrival order. The pair carries the scraper and \<open>allJobs\<close>.
\<close>

fun collect :: "stdlib \<Rightarrow> (string \<times> source_world) list \<Rightarrow> PowerScraper \<times> Job list \<Rightarrow> PowerScraper \<times> Job list" where
  "collect L [] (ps, allJobs) = (ps, allJobs)"
| "collect L ((sourceName, w) # rest) (ps, allJobs) =
     (case scrapeSource (retryConfig ps) sourceName w (metrics ps) of (result, m1) \<Rightarrow>
        if result_Error result \<noteq> None
        then collect L rest (ps\<lparr>metrics := m1\<lparr>TotalErrors := TotalErrors m1 + 1\<rparr>\<rparr>, allJobs)
        else
          (case RemoveDuplicates L (deduplicator ps) (result_Jobs result) of (d, uniqueJobs) \<Rightarrow>
             (let duplicates = int (length (result_Jobs result)) - int (length uniqueJobs);
                  sourceMetric = SourcePerformance_index (SourcePerformance m1) (result_Source result);
                  m2 = m1\<lparr>TotalJobsScraped := TotalJobsScraped m1 + of_nat (length (result_Jobs result)),
                          TotalDuplicates := TotalDuplicates m1 + of_int duplicates,
                          SourcePerformance := (SourcePerformance m1)
                            (result_Source result \<mapsto>
                               sourceMetric\<lparr>JobsScraped := of_nat (length (result_Jobs result)),
                                            Duplicates := of_int duplicates,
                                            ResponseTime := result_Duration result,
                                            LastScraped := now w\<rparr>)\<rparr>
              in collect L rest (ps\<lparr>deduplicator := d, metrics := m2\<rparr>, allJobs @ uniqueJobs))))"

definition ScrapeAllSources ::
  "stdlib \<Rightarrow> cycle_world \<Rightarrow> PowerScraper \<Rightarrow> (string \<times> source_world) list \<Rightarrow> error option \<times> PowerScraper" where
  "ScrapeAllSources L W ps enabledSources =
     (case
        (if length enabledSources = 0 then (Some ErrNoEnabledSources, ps)
         else
           (case collect L enabledSources (ps, []) of (ps1, allJobs) \<Rightarrow>
              if length allJobs > 0
              then
                (case saveJobs W allJobs (storage ps1) of
                   (Some err, st) \<Rightarrow> (Some (ErrSaveJobs err), ps1\<lparr>storage := st\<rparr>)
                 | (None, st) \<Rightarrow>
                     (None, ps1\<lparr>storage := st,
                                 metrics := (metrics ps1)\<lparr>TotalJobsSaved := of_nat (length allJobs)\<rparr>\<rparr>))
              else (None, ps1)))
      of (err, ps2) \<Rightarrow>
        (err, ps2\<lparr>metrics := (metrics ps2)\<lparr>ScrapingDuration := cycle_elapsed W\<rparr>\<rparr>))"

text \<open>The unique jobs that one cycle collects (\<open>allJobs\<close> after the collection loop).\<close>

definition collected_jobs :: "stdlib \<Rightarrow> PowerScraper \<Rightarrow> (string \<times> source_world) list \<Rightarrow> Job list" where
  "collected_jobs L ps enabledSources = snd (collect L enabledSources (ps, []))"

text \<open>Consecutive cycles of one PowerScraper; the errors of the cycles are dropped.\<close>

fun run_cycles :: "stdlib \<Rightarrow> PowerScraper \<Rightarrow> (cycle_world \<times> (string \<times> source_world) list) list \<Rightarrow> PowerScraper" where
  "run_cycles L ps [] = ps"
| "run_cycles L ps ((W, enabledSources) # cycles) =
     run_cycles L (snd (ScrapeAllSources L W ps enabledSources)) cycles"

subsection \<open>Quantities of one cycle\<close>

text \<open>
  \<open>fetch_failed\<close>: the rate limiter admitted the source, no backoff wait was cancelled and every
  attempt of FetchJobs returned an error, so the retry loop ends with \<open>lastError\<close> set.
\<close>

definition fetch_failed :: "RetryConfig \<Rightarrow> source_world \<Rightarrow> bool" where
  "fetch_failed cfg w =
     (Wait_result w = None \<and>
      (case scrapeSource_loop cfg w 0 ([], None) of Inl err \<Rightarrow> False | Inr r \<Rightarrow> snd r \<noteq> None))"











subsection \<open>Properties of scrapeSource and of the collection loop\<close>

lemma scrapeSource_fst:
  "fst (scrapeSource cfg n w m) = fst (scrapeSource cfg n w m')"
  by (simp add: scrapeSource_def split: option.splits sum.splits prod.splits)

lemma scrapeSource_snd:
  "snd (scrapeSource cfg n w m) =
     (if fetch_failed cfg w
      then m\<lparr>SourcePerformance := (SourcePerformance m)
             (n \<mapsto> (SourcePerformance_index (SourcePerformance m) n)
                    \<lparr>Errors := Errors (SourcePerformance_index (SourcePerformance m) n) + 1\<rparr>)\<rparr>
      else m)"
  by (auto simp: scrapeSource_def fetch_failed_def Let_def split: option.splits sum.splits prod.splits)

lemma fetch_failed_result:
  "fetch_failed cfg w \<Longrightarrow> result_Error (fst (scrapeSource cfg n w m)) \<noteq> None"
  by (auto simp: scrapeSource_def fetch_failed_def split: option.splits sum.splits prod.splits)

lemma collect_Cons:
  "collect L (s # rest) p = collect L rest (collect L [s] p)"
  by (cases s; cases p) (simp add: Let_def split: prod.splits)

lemma collect_append:
  "collect L (xs @ ys) p = collect L ys (collect L xs p)"
proof (induction xs arbitrary: p)
  case Nil
  show ?case by (cases p) simp
next
  case (Cons x xs)
  show ?case
    using collect_Cons [of L x "xs @ ys" p] collect_Cons [of L x xs p] Cons.IH [of "collect L [x] p"]
    by simp
qed

text \<open>One turn of the collection loop on a result with an error, and on one without.\<close>

lemma collect_step_failed:
  assumes "result_Error (fst (scrapeSource (retryConfig ps) n w m0)) \<noteq> None"
  shows "collect L [(n, w)] (ps, acc) =
     (ps\<lparr>metrics := (snd (scrapeSource (retryConfig ps) n w (metrics ps)))
           \<lparr>TotalErrors := TotalErrors (snd (scrapeSource (retryConfig ps) n w (metrics ps))) + 1\<rparr>\<rparr>, acc)"
proof -
  obtain r m1 where s: "scrapeSource (retryConfig ps) n w (metrics ps) = (r, m1)"
    by (cases "scrapeSource (retryConfig ps) n w (metrics ps)")
  have "r = fst (scrapeSource (retryConfig ps) n w m0)"
    using scrapeSource_fst [of "retryConfig ps" n w "metrics ps" m0] s by simp
  with assms have "result_Error r \<noteq> None"
    by simp
  then show ?thesis
    by (simp add: s)
qed

lemma collect_step_ok:
  assumes "result_Error (fst (scrapeSource (retryConfig ps) n w m0)) = None"
  shows "collect L [(n, w)] (ps, acc) =
     (let r = fst (scrapeSource (retryConfig ps) n w m0);
          m1 = snd (scrapeSource (retryConfig ps) n w (metrics ps));
          u = snd (RemoveDuplicates L (deduplicator ps) (result_Jobs r));
          duplicates = int (length (result_Jobs r)) - int (length u)
      in (ps\<lparr>deduplicator := fst (RemoveDuplicates L (deduplicator ps) (result_Jobs r)),
             metrics := m1\<lparr>TotalJobsScraped := TotalJobsScraped m1 + of_nat (length (result_Jobs r)),
                          TotalDuplicates := TotalDuplicates m1 + of_int duplicates,
                          SourcePerformance := (SourcePerformance m1)
                            (result_Source r \<mapsto>
                               (SourcePerformance_index (SourcePerformance m1) (result_Source r))
                                 \<lparr>JobsScraped := of_nat (length (result_Jobs r)),
                                  Duplicates := of_int duplicates,
                                  ResponseTime := result_Duration r,
                                  LastScraped := now w\<rparr>)\<rparr>\<rparr>,
          acc @ u))"
proof -
  obtain r m1 where s: "scrapeSource (retryConfig ps) n w (metrics ps) = (r, m1)"
    by (cases "scrapeSource (retryConfig ps) n w (metrics ps)")
  have r: "fst (scrapeSource (retryConfig ps) n w m0) = r"
    using scrapeSource_fst [of "retryConfig ps" n w "metrics ps" m0] s by simp
  with assms have e: "result_Error r = None"
    by simp
  obtain d u where q: "RemoveDuplicates L (deduplicator ps) (result_Jobs r) = (d, u)"
    by (cases "RemoveDuplicates L (deduplicator ps) (result_Jobs r)")
  show ?thesis
    by (simp add: s r e q Let_def)
qed

lemma scrapeSource_snd_totals:
  "TotalJobsScraped (snd (scrapeSource cfg n w m)) = TotalJobsScraped m"
  "TotalJobsSaved (snd (scrapeSource cfg n w m)) = TotalJobsSaved m"
  "TotalDuplicates (snd (scrapeSource cfg n w m)) = TotalDuplicates m"
  "TotalErrors (snd (scrapeSource cfg n w m)) = TotalErrors m"
  "ScrapingDuration (snd (scrapeSource cfg n w m)) = ScrapingDuration m"
  by (simp_all add: scrapeSource_snd)


text \<open>
  The state that the collection loop reaches from \<open>(ps, acc)\<close> after the first source, for a
  result with an error and for one without.
\<close>

definition after_failed :: "PowerScraper \<Rightarrow> string \<Rightarrow> source_world \<Rightarrow> PowerScraper" where
  "after_failed ps n w =
     ps\<lparr>metrics := (snd (scrapeSource (retryConfig ps) n w (metrics ps)))
          \<lparr>TotalErrors := TotalErrors (snd (scrapeSource (retryConfig ps) n w (metrics ps))) + 1\<rparr>\<rparr>"

definition after_ok :: "stdlib \<Rightarrow> PowerScraper \<Rightarrow> string \<Rightarrow> source_world \<Rightarrow> PowerScraper" where
  "after_ok L ps n w =
     (let r = fst (scrapeSource (retryConfig ps) n w NewPowerScraper_metrics);
          m1 = snd (scrapeSource (retryConfig ps) n w (metrics ps));
          u = snd (RemoveDuplicates L (deduplicator ps) (result_Jobs r));
          duplicates = int (length (result_Jobs r)) - int (length u)
      in ps\<lparr>deduplicator := fst (RemoveDuplicates L (deduplicator ps) (result_Jobs r)),
            metrics := m1\<lparr>TotalJobsScraped := TotalJobsScraped m1 + of_nat (length (result_Jobs r)),
                         TotalDuplicates := TotalDuplicates m1 + of_int duplicates,
                         SourcePerformance := (SourcePerformance m1)
                           (result_Source r \<mapsto>
                              (SourcePerformance_index (SourcePerformance m1) (result_Source r))
                                \<lparr>JobsScraped := of_nat (length (result_Jobs r)),
                                 Duplicates := of_int duplicates,
                                 ResponseTime := result_Duration r,
                                 LastScraped := now w\<rparr>)\<rparr>\<rparr>)"

lemma collect_Cons_failed:
  assumes "result_Error (fst (scrapeSource (retryConfig ps) n w NewPowerScraper_metrics)) \<noteq> None"
  shows "collect L ((n, w) # rest) (ps, acc) = collect L rest (after_failed ps n w, acc)"
  unfolding collect_Cons [of L "(n, w)" rest] collect_step_failed [OF assms] after_failed_def ..

lemma collect_Cons_ok:
  assumes "result_Error (fst (scrapeSource (retryConfig ps) n w NewPowerScraper_metrics)) = None"
  shows "collect L ((n, w) # rest) (ps, acc) =
     collect L rest (after_ok L ps n w,
       acc @ snd (RemoveDuplicates L (deduplicator ps)
         (result_Jobs (fst (scrapeSource (retryConfig ps) n w NewPowerScraper_metrics)))))"
  unfolding collect_Cons [of L "(n, w)" rest] collect_step_ok [OF assms] after_ok_def Let_def ..

lemma after_failed_simps:
  "retryConfig (after_failed ps n w) = retryConfig ps"
  "storage (after_failed ps n w) = storage ps"
  "deduplicator (after_failed ps n w) = deduplicator ps"
  "TotalErrors (metrics (after_failed ps n w)) = TotalErrors (metrics ps) + 1"
  "TotalJobsScraped (metrics (after_failed ps n w)) = TotalJobsScraped (metrics ps)"
  "TotalDuplicates (metrics (after_failed ps n w)) = TotalDuplicates (metrics ps)"
  "TotalJobsSaved (metrics (after_failed ps n w)) = TotalJobsSaved (metrics ps)"
  "ScrapingDuration (metrics (after_failed ps n w)) = ScrapingDuration (metrics ps)"
  by (simp_all add: after_failed_def scrapeSource_snd_totals)

lemma after_ok_simps:
  "retryConfig (after_ok L ps n w) = retryConfig ps"
  "storage (after_ok L ps n w) = storage ps"
  "deduplicator (after_ok L ps n w) =
     fst (RemoveDuplicates L (deduplicator ps)
       (result_Jobs (fst (scrapeSource (retryConfig ps) n w NewPowerScraper_metrics))))"
  "TotalErrors (metrics (after_ok L ps n w)) = TotalErrors (metrics ps)"
  "TotalJobsScraped (metrics (after_ok L ps n w)) =
     TotalJobsScraped (metrics ps) +
       of_nat (length (result_Jobs (fst (scrapeSource (retryConfig ps) n w NewPowerScraper_metrics))))"
  "TotalDuplicates (metrics (after_ok L ps n w)) =
     TotalDuplicates (metrics ps) +
       (of_nat (length (result_Jobs (fst (scrapeSource (retryConfig ps) n w NewPowerScraper_metrics)))) -
        of_nat (length (snd (RemoveDuplicates L (deduplicator ps)
          (result_Jobs (fst (scrapeSource (retryConfig ps) n w NewPowerScraper_metrics)))))))"
  "TotalJobsSaved (metrics (after_ok L ps n w)) = TotalJobsSaved (metrics ps)"
  "ScrapingDuration (metrics (after_ok L ps n w)) = ScrapingDuration (metrics ps)"
  by (simp_all add: after_ok_def Let_def scrapeSource_snd_totals)



lemma collect_retryConfig_storage:
  "retryConfig (fst (collect L srcs (ps, acc))) = retryConfig ps \<and>
   storage (fst (collect L srcs (ps, acc))) = storage ps \<and>
   TotalJobsSaved (metrics (fst (collect L srcs (ps, acc)))) = TotalJobsSaved (metrics ps) \<and>
   ScrapingDuration (metrics (fst (collect L srcs (ps, acc)))) = ScrapingDuration (metrics ps)"
proof (induction srcs arbitrary: ps acc)
  case Nil
  show ?case by simp
next
  case (Cons s srcs)
  obtain n w where s: "s = (n, w)"
    by (cases s)
  show ?case
  proof (cases "result_Error (fst (scrapeSource (retryConfig ps) n w NewPowerScraper_metrics)) = None")
    case True
    show ?thesis
      unfolding s collect_Cons_ok [OF True] by (simp add: Cons.IH after_ok_simps)
  next
    case False
    show ?thesis
      unfolding s collect_Cons_failed [OF False] by (simp add: Cons.IH after_failed_simps)
  qed
qed



subsection \<open>Properties of saveJobs\<close>

lemma SaveJob_each_calls: "SaveJob_each W batch st = st @ map SaveJob_call batch"
  by (induction batch arbitrary: st) simp_all




lemma saveJobs_loop_calls:
  "\<exists>new. snd (saveJobs_loop W jobs i st) = st @ new \<and> (\<forall>c \<in> set new. set (call_jobs c) \<subseteq> set jobs)"
proof (induction "length jobs - i" arbitrary: i st rule: less_induct)
  case less
  show ?case
  proof (cases "i < length jobs")
    case False
    then show ?thesis
      by (simp add: saveJobs_loop.simps [of W jobs i st])
  next
    case True
    define end' where "end' = (if i + batchSize > length jobs then length jobs else i + batchSize)"
    define batch where "batch = take (end' - i) (drop i jobs)"
    define st2 where "st2 = (if SaveJobs_result W st batch \<noteq> None
      then SaveJob_each W batch (st @ [SaveJobs_call batch]) else st @ [SaveJobs_call batch])"
    have sub: "set batch \<subseteq> set jobs"
      unfolding batch_def by (meson set_take_subset set_drop_subset subset_trans)
    obtain new1 where n1: "st2 = st @ new1" and j1: "\<forall>c \<in> set new1. set (call_jobs c) \<subseteq> set jobs"
    proof (cases "SaveJobs_result W st batch \<noteq> None")
      case True
      have "st2 = st @ (SaveJobs_call batch # map SaveJob_call batch)"
        using True by (simp add: st2_def SaveJob_each_calls)
      moreover have "\<forall>c \<in> set (SaveJobs_call batch # map SaveJob_call batch). set (call_jobs c) \<subseteq> set jobs"
        using sub by auto
      ultimately show ?thesis
        using that by blast
    next
      case False
      have "st2 = st @ [SaveJobs_call batch]"
        using False by (simp add: st2_def)
      moreover have "\<forall>c \<in> set [SaveJobs_call batch]. set (call_jobs c) \<subseteq> set jobs"
        using sub by auto
      ultimately show ?thesis
        using that by blast
    qed
    have step: "saveJobs_loop W jobs i st =
        (if ctx_Done_after_batch W i then (Some ErrContext, st2) else saveJobs_loop W jobs (i + batchSize) st2)"
      using True by (simp add: saveJobs_loop.simps [of W jobs i st] Let_def end'_def batch_def st2_def)
    show ?thesis
    proof (cases "ctx_Done_after_batch W i")
      case True
      with step n1 j1 show ?thesis
        by simp
    next
      case False
      have m: "length jobs - (i + batchSize) < length jobs - i"
        using True by (simp add: batchSize_def)
      obtain new2 where "snd (saveJobs_loop W jobs (i + batchSize) st2) = st2 @ new2"
        and "\<forall>c \<in> set new2. set (call_jobs c) \<subseteq> set jobs"
        using less [OF m, of st2] by blast
      with False step n1 j1 have "snd (saveJobs_loop W jobs i st) = st @ (new1 @ new2) \<and>
          (\<forall>c \<in> set (new1 @ new2). set (call_jobs c) \<subseteq> set jobs)"
        by auto
      then show ?thesis
        by blast
    qed
  qed
qed

lemma saveJobs_calls:
  "\<exists>new. snd (saveJobs W jobs st) = st @ new \<and> (\<forall>c \<in> set new. set (call_jobs c) \<subseteq> set jobs)"
  unfolding saveJobs_def by (rule saveJobs_loop_calls)

subsection \<open>Properties of ScrapeAllSources\<close>

lemma collect_fst_acc:
  "fst (collect L srcs (ps, acc)) = fst (collect L srcs (ps, []))"
proof (induction srcs arbitrary: ps acc)
  case Nil
  show ?case by simp
next
  case (Cons s srcs)
  obtain n w where s: "s = (n, w)"
    by (cases s)
  show ?case
  proof (cases "result_Error (fst (scrapeSource (retryConfig ps) n w NewPowerScraper_metrics)) = None")
    case True
    show ?thesis
      unfolding s collect_Cons_ok [OF True]
      using Cons.IH [of "after_ok L ps n w"] by metis
  next
    case False
    show ?thesis
      unfolding s collect_Cons_failed [OF False]
      using Cons.IH [of "after_failed ps n w"] by metis
  qed
qed



lemma ScrapeAllSources_storage:
  "\<exists>new. storage (snd (ScrapeAllSources L W ps srcs)) = storage ps @ new \<and>
     (\<forall>c \<in> set new. set (call_jobs c) \<subseteq> set (collected_jobs L ps srcs))"
proof (cases "srcs = []")
  case True
  then show ?thesis
    by (simp add: ScrapeAllSources_def)
next
  case False
  obtain ps1 allJobs where c: "collect L srcs (ps, []) = (ps1, allJobs)"
    by (cases "collect L srcs (ps, [])")
  then have a: "collected_jobs L ps srcs = allJobs"
    by (simp add: collected_jobs_def)
  have r: "storage ps1 = storage ps"
    using collect_retryConfig_storage [of L srcs ps "[]"] c by simp
  show ?thesis
  proof (cases "allJobs = []")
    case True
    with False show ?thesis
      by (simp add: ScrapeAllSources_def c r)
  next
    case n: False
    obtain e st where s: "saveJobs W allJobs (storage ps1) = (e, st)"
      by (cases "saveJobs W allJobs (storage ps1)")
    obtain new where "st = storage ps @ new" and "\<forall>c \<in> set new. set (call_jobs c) \<subseteq> set allJobs"
      using saveJobs_calls [of W allJobs "storage ps1"] s r by auto
    moreover have "storage (snd (ScrapeAllSources L W ps srcs)) = st"
      using False n by (cases e) (simp_all add: ScrapeAllSources_def c s)
    ultimately show ?thesis
      unfolding a by blast
  qed
qed






end
